theory Spec2Isabelle
  imports Complex_Main "HOL-Library.Word"
begin

unbundle bit_operations_syntax

section \<open>System status flags\<close>

text \<open>
  \<^verbatim>\<open>SystemStatus\<close> is an unsigned integer used as a bitmask. The header that declares the
  flag constants (\<^verbatim>\<open>types.h\<close>) is not among the sources.
\<close>

type_synonym SystemStatus = "32 word"

text \<open>
  Modelled from the spec: the \<^verbatim>\<open>STATE_*\<close> constants of \<^verbatim>\<open>types.h\<close>. The spec describes
  them as independent boolean capabilities of a bitmask, so each one is a single bit of its own.
  Only their being distinct single bits is used below; the positions are a choice.
\<close>

definition STATE_ROLLPITCH :: SystemStatus where "STATE_ROLLPITCH = 8"
definition STATE_RATE_XY :: SystemStatus where "STATE_RATE_XY = 32"
definition STATE_RATE_Z :: SystemStatus where "STATE_RATE_Z = 64"
definition STATE_VELOCITY_XY :: SystemStatus where "STATE_VELOCITY_XY = 128"
definition STATE_VELOCITY_Z :: SystemStatus where "STATE_VELOCITY_Z = 256"
definition STATE_POSITION_XY :: SystemStatus where "STATE_POSITION_XY = 512"
definition STATE_POSITION_Z :: SystemStatus where "STATE_POSITION_Z = 1024"

lemmas STATE_defs =
  STATE_ROLLPITCH_def STATE_RATE_XY_def STATE_RATE_Z_def STATE_VELOCITY_XY_def
  STATE_VELOCITY_Z_def STATE_POSITION_XY_def STATE_POSITION_Z_def

text \<open>The C++ test \<^verbatim>\<open>if (flags & F)\<close>: the conjunction is non-zero.\<close>

definition active :: "SystemStatus \<Rightarrow> SystemStatus \<Rightarrow> bool" where
  "active flags f \<longleftrightarrow> flags AND f \<noteq> 0"

section \<open>State and process model\<close>

text \<open>
  The components of the state vector that \<^verbatim>\<open>generic_quaternion_system_model.cpp\<close> and the
  measurement models name (\<^verbatim>\<open>State::QUATERNION_W\<close>, ...). The header that fixes their
  numeric order is not among the sources, so a vector is indexed by the name itself.
\<close>

datatype StateIndex =
    QUATERNION_W | QUATERNION_X | QUATERNION_Y | QUATERNION_Z
  | RATE_X | RATE_Y | RATE_Z
  | POSITION_X | POSITION_Y | POSITION_Z
  | VELOCITY_X | VELOCITY_Y | VELOCITY_Z

type_synonym StateVector = "StateIndex \<Rightarrow> real"

type_synonym NoiseVariance = "StateIndex \<Rightarrow> StateIndex \<Rightarrow> real"

record Vector3 =
  vec_x :: real
  vec_y :: real
  vec_z :: real

record Quaternion =
  q_w :: real
  q_x :: real
  q_y :: real
  q_z :: real

text \<open>
  Modelled from the spec: class \<^verbatim>\<open>State\<close> (\<^verbatim>\<open>state.h\<close> is not among the sources): the mean
  vector, the two status bitmasks, and for each sub-block the index at which it starts in the
  vector, negative when the sub-block is not part of the state.
\<close>

record State =
  vector :: StateVector
  system_status :: SystemStatus
  measurement_status :: SystemStatus
  orientation_index :: int
  rate_index :: int
  position_index :: int
  velocity_index :: int

definition getSystemStatus :: "State \<Rightarrow> SystemStatus" where
  "getSystemStatus state = system_status state"

definition getMeasurementStatus :: "State \<Rightarrow> SystemStatus" where
  "getMeasurementStatus state = measurement_status state"

definition getOrientationIndex :: "State \<Rightarrow> int" where
  "getOrientationIndex state = orientation_index state"

definition getRateIndex :: "State \<Rightarrow> int" where
  "getRateIndex state = rate_index state"

definition getPositionIndex :: "State \<Rightarrow> int" where
  "getPositionIndex state = position_index state"

definition getVelocityIndex :: "State \<Rightarrow> int" where
  "getVelocityIndex state = velocity_index state"

definition getOrientation :: "State \<Rightarrow> Quaternion" where
  "getOrientation state =
     \<lparr>q_w = vector state QUATERNION_W, q_x = vector state QUATERNION_X,
      q_y = vector state QUATERNION_Y, q_z = vector state QUATERNION_Z\<rparr>"

definition getVelocity :: "State \<Rightarrow> Vector3" where
  "getVelocity state =
     \<lparr>vec_x = vector state VELOCITY_X, vec_y = vector state VELOCITY_Y,
      vec_z = vector state VELOCITY_Z\<rparr>"

text \<open>
  The fields of \<^verbatim>\<open>GenericQuaternionSystemModel\<close> that the functions below read:
  \<open>rate\<close> and \<open>acceleration\<close> are the members that \<^verbatim>\<open>prepareUpdate\<close> fills before each step,
  the others are parameters. A member's trailing underscore is dropped, since a name cannot
  end in one here. Numbers are reals, not IEEE doubles.
\<close>

record GenericQuaternionSystemModel =
  rate :: Vector3
  acceleration :: Vector3
  gravity :: real
  angular_acceleration_stddev :: real
  rate_stddev :: real
  acceleration_stddev :: real
  velocity_stddev :: real

text \<open>
  \<^verbatim>\<open>GenericQuaternionSystemModel::getDerivative(x_dot, state)\<close>. The vector \<open>x_dot\<close> is passed by
  reference and only some of its entries are assigned, so the model takes the incoming vector
  and returns the updated one.
\<close>

definition getDerivative ::
  "GenericQuaternionSystemModel \<Rightarrow> StateVector \<Rightarrow> State \<Rightarrow> StateVector" where
  "getDerivative m x_dot state =
    (let q = getOrientation state;
         v = getVelocity state;
         r = rate m;
         a = acceleration m;
         x_dot =
           (if getOrientationIndex state \<ge> 0 then
              x_dot(QUATERNION_W := 0.5 * ((- vec_x r) * q_x q + (- vec_y r) * q_y q + (- vec_z r) * q_z q),
                    QUATERNION_X := 0.5 * ((vec_x r) * q_w q + (vec_z r) * q_y q + (- vec_y r) * q_z q),
                    QUATERNION_Y := 0.5 * ((vec_y r) * q_w q + (- vec_z r) * q_x q + (vec_x r) * q_z q),
                    QUATERNION_Z := 0.5 * ((vec_z r) * q_w q + (vec_y r) * q_x q + (- vec_x r) * q_y q))
            else x_dot);
         x_dot =
           (if active (getSystemStatus state) STATE_VELOCITY_XY \<and> getVelocityIndex state \<ge> 0 then
              x_dot(VELOCITY_X :=
                      (q_w q * q_w q + q_x q * q_x q - q_y q * q_y q - q_z q * q_z q) * vec_x a
                    + (2.0 * q_x q * q_y q - 2.0 * q_w q * q_z q) * vec_y a
                    + (2.0 * q_x q * q_z q + 2.0 * q_w q * q_y q) * vec_z a,
                    VELOCITY_Y :=
                      (2.0 * q_x q * q_y q + 2.0 * q_w q * q_z q) * vec_x a
                    + (q_w q * q_w q - q_x q * q_x q + q_y q * q_y q - q_z q * q_z q) * vec_y a
                    + (2.0 * q_y q * q_z q - 2.0 * q_w q * q_x q) * vec_z a)
            else x_dot);
         x_dot =
           (if active (getSystemStatus state) STATE_VELOCITY_Z \<and> getVelocityIndex state \<ge> 0 then
              x_dot(VELOCITY_Z :=
                      (2.0 * q_x q * q_z q - 2.0 * q_w q * q_y q) * vec_x a
                    + (2.0 * q_y q * q_z q + 2.0 * q_w q * q_x q) * vec_y a
                    + (q_w q * q_w q - q_x q * q_x q - q_y q * q_y q + q_z q * q_z q) * vec_z a
                    + gravity m)
            else x_dot);
         x_dot =
           (if active (getSystemStatus state) STATE_POSITION_XY then
              x_dot(POSITION_X := vec_x v, POSITION_Y := vec_y v)
            else x_dot);
         x_dot =
           (if active (getSystemStatus state) STATE_POSITION_Z then
              x_dot(POSITION_Z := vec_z v)
            else x_dot)
     in x_dot)"

text \<open>The assignment \<^verbatim>\<open>Q(i,i) = Q(j,j) = Q(k,k) = v\<close> to three diagonal entries.\<close>

definition set_diag3 ::
  "NoiseVariance \<Rightarrow> StateIndex \<Rightarrow> StateIndex \<Rightarrow> StateIndex \<Rightarrow> real \<Rightarrow> NoiseVariance" where
  "set_diag3 Q i j k v = Q(k := (Q k)(k := v), j := (Q j)(j := v), i := (Q i)(i := v))"

text \<open>
  \<^verbatim>\<open>GenericQuaternionSystemModel::getSystemNoise(Q, state, init)\<close>. \<open>Q\<close> is passed by
  reference; the model returns the updated matrix. The third test of the \<open>init\<close> branch reads
  \<^verbatim>\<open>getRateIndex\<close> in the source, as here.
\<close>

definition getSystemNoise ::
  "GenericQuaternionSystemModel \<Rightarrow> NoiseVariance \<Rightarrow> State \<Rightarrow> bool \<Rightarrow> NoiseVariance" where
  "getSystemNoise m Q state init =
    (let Q =
           (if init then
              (let Q = (if getRateIndex state \<ge> 0
                        then set_diag3 Q RATE_X RATE_Y RATE_Z ((angular_acceleration_stddev m)\<^sup>2)
                        else Q);
                   Q = (if getPositionIndex state \<ge> 0
                        then set_diag3 Q POSITION_X POSITION_Y POSITION_Z ((velocity_stddev m)\<^sup>2)
                        else Q);
                   Q = (if getRateIndex state \<ge> 0
                        then set_diag3 Q VELOCITY_X VELOCITY_Y VELOCITY_Z ((acceleration_stddev m)\<^sup>2)
                        else Q)
               in Q)
            else Q);
         Q =
           (if rate_stddev m > 0.0 \<and> getOrientationIndex state \<ge> 0 then
              (let q = getOrientation state;
                   rate_variance_4 = 0.25 * (rate_stddev m)\<^sup>2
               in Q(QUATERNION_W := (Q QUATERNION_W)(QUATERNION_W :=
                      rate_variance_4 * (q_x q * q_x q + q_y q * q_y q + q_z q * q_z q)),
                    QUATERNION_X := (Q QUATERNION_X)(QUATERNION_X :=
                      rate_variance_4 * (q_w q * q_w q + q_y q * q_y q + q_z q * q_z q)),
                    QUATERNION_Y := (Q QUATERNION_Y)(QUATERNION_Y :=
                      rate_variance_4 * (q_w q * q_w q + q_x q * q_x q + q_z q * q_z q)),
                    QUATERNION_Z := (Q QUATERNION_Z)(QUATERNION_Z :=
                      rate_variance_4 * (q_w q * q_w q + q_x q * q_x q + q_y q * q_y q))))
            else Q)
     in Q)"

text \<open>
  \<^verbatim>\<open>GenericQuaternionSystemModel::getStatusFlags(state)\<close>. The argument
  \<open>use_rate_system_model\<close> is the preprocessor switch \<^verbatim>\<open>USE_RATE_SYSTEM_MODEL\<close>.
\<close>

definition getStatusFlags :: "bool \<Rightarrow> State \<Rightarrow> SystemStatus" where
  "getStatusFlags use_rate_system_model state =
    (let flags = getMeasurementStatus state;
         flags = (if active flags STATE_POSITION_XY then flags OR STATE_VELOCITY_XY else flags);
         flags = (if active flags STATE_POSITION_Z then flags OR STATE_VELOCITY_Z else flags);
         flags = (if active flags STATE_VELOCITY_XY then flags OR STATE_ROLLPITCH else flags);
         flags = (if active flags STATE_ROLLPITCH then flags OR STATE_RATE_XY else flags);
         flags = (if \<not> use_rate_system_model then flags OR (STATE_RATE_XY OR STATE_RATE_Z) else flags)
     in flags)"

subsection \<open>The derivative as the specification words it\<close>

text \<open>
  The specification describes the derivative with quaternion algebra. These definitions follow
  its words (the Hamilton product, a vector as a pure quaternion, rotation of a body-frame
  vector by \<open>q \<otimes> [0, a] \<otimes> q\<^sup>*\<close>) and are compared with \<open>getDerivative\<close> below.
\<close>

definition quat_mult :: "Quaternion \<Rightarrow> Quaternion \<Rightarrow> Quaternion" where
  "quat_mult p q =
     \<lparr>q_w = q_w p * q_w q - q_x p * q_x q - q_y p * q_y q - q_z p * q_z q,
      q_x = q_w p * q_x q + q_x p * q_w q + q_y p * q_z q - q_z p * q_y q,
      q_y = q_w p * q_y q - q_x p * q_z q + q_y p * q_w q + q_z p * q_x q,
      q_z = q_w p * q_z q + q_x p * q_y q - q_y p * q_x q + q_z p * q_w q\<rparr>"

definition pure_quat :: "Vector3 \<Rightarrow> Quaternion" where
  "pure_quat v = \<lparr>q_w = 0, q_x = vec_x v, q_y = vec_y v, q_z = vec_z v\<rparr>"

definition quat_conj :: "Quaternion \<Rightarrow> Quaternion" where
  "quat_conj q = \<lparr>q_w = q_w q, q_x = - q_x q, q_y = - q_y q, q_z = - q_z q\<rparr>"

definition quat_scale :: "real \<Rightarrow> Quaternion \<Rightarrow> Quaternion" where
  "quat_scale c q = \<lparr>q_w = c * q_w q, q_x = c * q_x q, q_y = c * q_y q, q_z = c * q_z q\<rparr>"

definition rotate_to_nav :: "Quaternion \<Rightarrow> Vector3 \<Rightarrow> Vector3" where
  "rotate_to_nav q a =
     (let r = quat_mult (quat_mult q (pure_quat a)) (quat_conj q)
      in \<lparr>vec_x = q_x r, vec_y = q_y r, vec_z = q_z r\<rparr>)"

text \<open>\<open>q\<^sup>\<cdot> = \<^sup>1\<^sub>/\<^sub>2 q \<otimes> [0, \<omega>]\<close>.\<close>

definition spec_quaternion_dot :: "GenericQuaternionSystemModel \<Rightarrow> State \<Rightarrow> Quaternion" where
  "spec_quaternion_dot m state =
     quat_scale 0.5 (quat_mult (getOrientation state) (pure_quat (rate m)))"

text \<open>
  The velocity derivative in the specification's words: the rotated body acceleration, with gravity
  added to the vertical component only when Z velocity is active.
\<close>

definition spec_velocity_dot :: "GenericQuaternionSystemModel \<Rightarrow> State \<Rightarrow> Vector3" where
  "spec_velocity_dot m state =
     (let a = rotate_to_nav (getOrientation state) (acceleration m)
      in a\<lparr>vec_z := vec_z a
             + (if active (getSystemStatus state) STATE_VELOCITY_Z then gravity m else 0)\<rparr>)"

subsection \<open>Example inputs\<close>

definition zero_vector :: StateVector where
  "zero_vector = (\<lambda>i. 0)"

definition zero_matrix :: NoiseVariance where
  "zero_matrix = (\<lambda>i j. 0)"

definition all_status :: SystemStatus where
  "all_status = STATE_ROLLPITCH OR STATE_RATE_XY OR STATE_RATE_Z OR STATE_VELOCITY_XY
     OR STATE_VELOCITY_Z OR STATE_POSITION_XY OR STATE_POSITION_Z"

text \<open>
  A model with a body acceleration along x, and two states with the identity orientation and
  velocity (1, 2, 3): \<open>idle_state\<close> has no rate sub-block and nothing active in its system
  status (no sensor has reported yet); \<open>position_state\<close> is \<open>idle_state\<close> with XY and Z position
  in its measurement status; \<open>full_state\<close> has every sub-block and every flag.
\<close>

definition example_model :: GenericQuaternionSystemModel where
  "example_model =
     \<lparr>rate = \<lparr>vec_x = 0, vec_y = 0, vec_z = 1\<rparr>,
      acceleration = \<lparr>vec_x = 1, vec_y = 0, vec_z = 0\<rparr>,
      gravity = 10, angular_acceleration_stddev = 6, rate_stddev = 2,
      acceleration_stddev = 1, velocity_stddev = 3\<rparr>"

definition example_vector :: StateVector where
  "example_vector = zero_vector(QUATERNION_W := 1, VELOCITY_X := 1, VELOCITY_Y := 2, VELOCITY_Z := 3)"

definition idle_state :: State where
  "idle_state =
     \<lparr>vector = example_vector, system_status = 0, measurement_status = 0,
      orientation_index = 0, rate_index = - 1, position_index = 4, velocity_index = 7\<rparr>"

definition position_state :: State where
  "position_state = idle_state\<lparr>measurement_status := STATE_POSITION_XY OR STATE_POSITION_Z\<rparr>"

definition full_state :: State where
  "full_state =
     \<lparr>vector = example_vector, system_status = all_status, measurement_status = all_status,
      orientation_index = 0, rate_index = 4, position_index = 7, velocity_index = 10\<rparr>"

section \<open>Global reference\<close>

record Position =
  latitude :: real
  longitude :: real
  altitude :: real

record GlobalReference =
  position :: Position
  heading :: real

text \<open>
  Modelled from the spec: the operations of \<^verbatim>\<open>GlobalReference\<close> (\<^verbatim>\<open>global_reference.h\<close> and
  its implementation are not among the sources). The spec gives \<^verbatim>\<open>setPosition\<close> and
  \<^verbatim>\<open>setAltitude\<close> as overwriting the anchor, \<^verbatim>\<open>fromWGS84\<close> and \<^verbatim>\<open>toWGS84\<close> as a
  local-tangent-plane conversion around the anchor, equirectangular or better, and
  \<^verbatim>\<open>fromNorthEast\<close> as the rotation into the local frame by the anchor's heading. The model is
  the equirectangular projection on a sphere, angles in radians, with the same rotation for
  positions and velocities. At a pole the east radius is zero and the conversion is not
  defined; the theorems that give the value of a longitude exclude that case.
\<close>

definition setPosition :: "GlobalReference \<Rightarrow> real \<Rightarrow> real \<Rightarrow> GlobalReference" where
  "setPosition ref lat lon = ref\<lparr>position := (position ref)\<lparr>latitude := lat, longitude := lon\<rparr>\<rparr>"

definition setAltitude :: "GlobalReference \<Rightarrow> real \<Rightarrow> GlobalReference" where
  "setAltitude ref alt = ref\<lparr>position := (position ref)\<lparr>altitude := alt\<rparr>\<rparr>"

definition equatorial_radius :: real where
  "equatorial_radius = 6378137"

definition radius_north :: "GlobalReference \<Rightarrow> real" where
  "radius_north ref = equatorial_radius"

definition radius_east :: "GlobalReference \<Rightarrow> real" where
  "radius_east ref = equatorial_radius * cos (latitude (position ref))"

definition fromNorthEast :: "GlobalReference \<Rightarrow> real \<Rightarrow> real \<Rightarrow> real \<times> real" where
  "fromNorthEast ref north east =
     (north * cos (heading ref) + east * sin (heading ref),
      east * cos (heading ref) - north * sin (heading ref))"

definition toNorthEast :: "GlobalReference \<Rightarrow> real \<Rightarrow> real \<Rightarrow> real \<times> real" where
  "toNorthEast ref x y =
     (x * cos (heading ref) - y * sin (heading ref),
      x * sin (heading ref) + y * cos (heading ref))"

definition fromWGS84 :: "GlobalReference \<Rightarrow> real \<Rightarrow> real \<Rightarrow> real \<times> real" where
  "fromWGS84 ref lat lon =
     fromNorthEast ref (radius_north ref * (lat - latitude (position ref)))
                       (radius_east ref * (lon - longitude (position ref)))"

definition toWGS84 :: "GlobalReference \<Rightarrow> real \<Rightarrow> real \<Rightarrow> real \<times> real" where
  "toWGS84 ref x y =
     (let (north, east) = toNorthEast ref x y
      in (latitude (position ref) + north / radius_north ref,
          longitude (position ref) + east / radius_east ref))"

section \<open>Estimator and store\<close>

text \<open>
  The measurement models keep a pointer to the estimator's \<^verbatim>\<open>GlobalReference\<close> and mutate
  the object through it. The store maps an address to the object that lives there; a pointer
  is an address, or \<open>None\<close> for the null pointer.
\<close>

type_synonym addr = nat

type_synonym store = "addr \<Rightarrow> GlobalReference"

text \<open>
  What the measurement models read of \<^verbatim>\<open>PoseEstimation\<close>: the state vector (member
  \<^verbatim>\<open>state_\<close>) and the address of the member \<^verbatim>\<open>global_reference_\<close>.
\<close>

record PoseEstimation =
  state_vec :: StateVector
  global_reference :: addr

definition getState :: "PoseEstimation \<Rightarrow> StateVector" where
  "getState estimator = state_vec estimator"

definition globalReference :: "PoseEstimation \<Rightarrow> addr" where
  "globalReference estimator = global_reference estimator"

section \<open>GPS measurement\<close>

text \<open>
  A \<^verbatim>\<open>double\<close> that may be not-a-number. \<open>ddiv\<close> is the IEEE division of two finite numbers
  (signed zeros apart): the source writes NaN as \<^verbatim>\<open>0.0/0.0\<close>.
\<close>

datatype double = Finite real | PosInf | NegInf | NaN

definition ddiv :: "real \<Rightarrow> real \<Rightarrow> double" where
  "ddiv a b =
     (if b \<noteq> 0 then Finite (a / b)
      else if a = 0 then NaN
      else if a > 0 then PosInf else NegInf)"

text \<open>
  The fields of \<^verbatim>\<open>GPSUpdate\<close> that \<^verbatim>\<open>gps.cpp\<close> reads; \<^verbatim>\<open>latitude\<close> and \<^verbatim>\<open>longitude\<close> carry a
  prefix here because \<open>Position\<close> has fields of the same names.
\<close>

record GPSUpdate =
  update_latitude :: real
  update_longitude :: real
  velocity_north :: real
  velocity_east :: real

text \<open>
  The members of \<^verbatim>\<open>GPS\<close>: \<^verbatim>\<open>reference_\<close>, the vector \<^verbatim>\<open>y_\<close> (of dimension 4, first index 1
  in the source and 0 here) and \<^verbatim>\<open>last_\<close>.
\<close>

record GPS =
  reference :: "addr option"
  y_gps :: "double list"
  last_update :: GPSUpdate

text \<open>
  The constructor sets \<^verbatim>\<open>reference_(0)\<close> and \<^verbatim>\<open>y_(4)\<close>; the contents of the fresh vector and
  of \<^verbatim>\<open>last_\<close> are whatever their default constructors leave, here the arguments.
\<close>

definition GPS_new :: "double \<Rightarrow> double \<Rightarrow> double \<Rightarrow> double \<Rightarrow> GPSUpdate \<Rightarrow> GPS" where
  "GPS_new a b c d l0 = \<lparr>reference = None, y_gps = [a, b, c, d], last_update = l0\<rparr>"

definition GPS_onReset :: "GPS \<Rightarrow> GPS" where
  "GPS_onReset gps = gps\<lparr>reference := None\<rparr>"

text \<open>\<^verbatim>\<open>GPS::getVector(update)\<close>; the result is the vector returned and the updated object.\<close>

definition getVector :: "GPS \<Rightarrow> store \<Rightarrow> GPSUpdate \<Rightarrow> double list \<times> GPS" where
  "getVector gps mem update =
     (case reference gps of
        None \<Rightarrow>
          (let nan = ddiv 0.0 0.0;
               y = (y_gps gps)[3 := nan, 2 := nan, 1 := nan, 0 := nan]
           in (y, gps\<lparr>y_gps := y\<rparr>))
      | Some r \<Rightarrow>
          (let (y1, y2) = fromWGS84 (mem r) (update_latitude update) (update_longitude update);
               (y3, y4) = fromNorthEast (mem r) (velocity_north update) (velocity_east update);
               y = (y_gps gps)[0 := Finite y1, 1 := Finite y2, 2 := Finite y3, 3 := Finite y4]
           in (y, gps\<lparr>y_gps := y, last_update := update\<rparr>)))"

text \<open>
  \<^verbatim>\<open>GPS::beforeUpdate(estimator, update)\<close>. \<open>timedout\<close> is the value of \<^verbatim>\<open>timedout()\<close>, a
  method of the base class \<^verbatim>\<open>Measurement\<close> that is not among the sources. The estimator is
  only read. The result is the returned flag, the updated object and the updated store.
\<close>

definition beforeUpdate ::
  "bool \<Rightarrow> GPS \<Rightarrow> PoseEstimation \<Rightarrow> store \<Rightarrow> GPSUpdate \<Rightarrow> bool \<times> GPS \<times> store" where
  "beforeUpdate timedout gps estimator mem update =
     (let gps = (if timedout then gps\<lparr>reference := None\<rparr> else gps)
      in if reference gps \<noteq> Some (globalReference estimator) then
           (let r = globalReference estimator;
                gps = gps\<lparr>reference := Some r\<rparr>;
                mem = mem(r := setPosition (mem r) (update_latitude update) (update_longitude update));
                state = getState estimator;
                (new_latitude, new_longitude) =
                   toWGS84 (mem r) (- state POSITION_X) (- state POSITION_Y);
                mem = mem(r := setPosition (mem r) new_latitude new_longitude)
            in (True, gps, mem))
         else (True, gps, mem))"

subsection \<open>Example inputs\<close>

text \<open>
  An estimator whose reference lives at address 1, anchored at latitude 0 and longitude 0 with
  heading 0, and whose state is 63781.37 m north of the anchor (0.01 rad of latitude). The fix
  reports latitude 0.02 and longitude 0.03. \<open>fresh_gps\<close> has never seen a fix;
  \<open>locked_gps\<close> holds the estimator's reference.
\<close>

definition example_reference :: GlobalReference where
  "example_reference = \<lparr>position = \<lparr>latitude = 0, longitude = 0, altitude = 0\<rparr>, heading = 0\<rparr>"

definition example_store :: store where
  "example_store = (\<lambda>a. example_reference)"

definition example_estimator :: PoseEstimation where
  "example_estimator = \<lparr>state_vec = zero_vector(POSITION_X := 63781.37), global_reference = 1\<rparr>"

definition example_fix :: GPSUpdate where
  "example_fix = \<lparr>update_latitude = 0.02, update_longitude = 0.03,
                   velocity_north = 0, velocity_east = 0\<rparr>"

definition fresh_gps :: GPS where
  "fresh_gps = GPS_new (Finite 0) (Finite 0) (Finite 0) (Finite 0) example_fix"

definition locked_gps :: GPS where
  "locked_gps = fresh_gps\<lparr>reference := Some 1\<rparr>"




section \<open>Height measurement\<close>

text \<open>
  The members of \<^verbatim>\<open>Height\<close> that \<^verbatim>\<open>height.cpp\<close> uses: \<^verbatim>\<open>elevation_\<close> of its
  \<^verbatim>\<open>HeightModel\<close>, and \<^verbatim>\<open>auto_elevation_\<close> and \<^verbatim>\<open>elevation_initialized_\<close> of the base
  \<^verbatim>\<open>HeightBaroCommon\<close>.
\<close>

record Height =
  elevation :: real
  auto_elevation :: bool
  elevation_initialized :: bool

text \<open>The constructors of \<^verbatim>\<open>HeightModel\<close> and \<^verbatim>\<open>HeightBaroCommon\<close>.\<close>

definition Height_new :: Height where
  "Height_new = \<lparr>elevation = 0.0, auto_elevation = True, elevation_initialized = False\<rparr>"

definition getElevation :: "Height \<Rightarrow> real" where
  "getElevation h = elevation h"

definition setElevation :: "Height \<Rightarrow> real \<Rightarrow> Height" where
  "setElevation h e = h\<lparr>elevation := e\<rparr>"

text \<open>\<^verbatim>\<open>HeightBaroCommon::onReset\<close>, which \<^verbatim>\<open>Height::onReset\<close> calls.\<close>

definition Height_onReset :: "Height \<Rightarrow> Height" where
  "Height_onReset h = h\<lparr>elevation_initialized := False\<rparr>"

text \<open>
  The height model computes with doubles, and the height claim is about the exact value of a
  sum and a difference. Each arithmetic operation of \<^verbatim>\<open>height.cpp\<close> is therefore followed
  by a rounding function \<open>rnd\<close> (IEEE arithmetic returns the rounded exact result of finite
  operands); the theorems hold for every \<open>rnd\<close>. \<open>no_rounding\<close> is the rounding of the
  examples, whose operands and results are small integers, which a double holds exactly.
\<close>

definition no_rounding :: "real \<Rightarrow> real" where
  "no_rounding v = v"

text \<open>
  \<^verbatim>\<open>HeightModel::ExpectedValueGet\<close>; the argument \<open>x\<close> is the state vector \<^verbatim>\<open>x_\<close> that the
  filter binds to the model.
\<close>

definition ExpectedValueGet :: "(real \<Rightarrow> real) \<Rightarrow> Height \<Rightarrow> StateVector \<Rightarrow> real" where
  "ExpectedValueGet rnd h x = rnd (x POSITION_Z + getElevation h)"

text \<open>
  \<^verbatim>\<open>HeightBaroCommon::resetElevation(estimator, altitude_func)\<close>. The result is the returned
  altitude, the updated object and the updated store. The value returned is read from the
  estimator's global reference in both branches. The flag \<^verbatim>\<open>auto_elevation_\<close> is not read
  by the source.
\<close>

definition resetElevation ::
  "(real \<Rightarrow> real) \<Rightarrow> Height \<Rightarrow> PoseEstimation \<Rightarrow> store \<Rightarrow> (unit \<Rightarrow> real)
     \<Rightarrow> real \<times> Height \<times> store" where
  "resetElevation rnd h estimator mem altitude_func =
     (let r = globalReference estimator in
      if \<not> elevation_initialized h then
        (let state = getState estimator;
             mem = mem(r := setAltitude (mem r) (rnd (altitude_func () - state POSITION_Z)));
             h = h\<lparr>elevation_initialized := True\<rparr>
         in (altitude (position (mem r)), h, mem))
      else (altitude (position (mem r)), h, mem))"

text \<open>
  \<^verbatim>\<open>Height::beforeUpdate(estimator, update)\<close>; \<open>y1\<close> is \<^verbatim>\<open>update.getVector()(1)\<close>, the only
  component of the one-dimensional height measurement.
\<close>

definition Height_beforeUpdate ::
  "(real \<Rightarrow> real) \<Rightarrow> Height \<Rightarrow> PoseEstimation \<Rightarrow> store \<Rightarrow> real \<Rightarrow> bool \<times> Height \<times> store" where
  "Height_beforeUpdate rnd h estimator mem y1 =
     (let (e, h, mem) = resetElevation rnd h estimator mem (\<lambda>u. y1)
      in (True, setElevation h e, mem))"

text \<open>
  Two height measurements registered with one estimator share its global reference, whose
  altitude each of them writes on its first sample and reads on every sample. A run is a
  sequence of events on the pair of objects and the store: a sample for one of the two, taken
  when the filter has moved the state to \<open>x\<close>, or a reset of one of the two. The reference
  stays at address \<open>r\<close>.
\<close>

datatype Sensor = First | Second

datatype HeightEvent = Sample Sensor StateVector real | Reset Sensor

fun height_step ::
  "(real \<Rightarrow> real) \<Rightarrow> addr \<Rightarrow> Height \<times> Height \<times> store \<Rightarrow> HeightEvent \<Rightarrow> Height \<times> Height \<times> store" where
  "height_step rnd r (h, h2, mem) (Sample First x y1) =
     (let (ok, h, mem) = Height_beforeUpdate rnd h \<lparr>state_vec = x, global_reference = r\<rparr> mem y1
      in (h, h2, mem))"
| "height_step rnd r (h, h2, mem) (Sample Second x y1) =
     (let (ok, h2, mem) = Height_beforeUpdate rnd h2 \<lparr>state_vec = x, global_reference = r\<rparr> mem y1
      in (h, h2, mem))"
| "height_step rnd r (h, h2, mem) (Reset First) = (Height_onReset h, h2, mem)"
| "height_step rnd r (h, h2, mem) (Reset Second) = (h, Height_onReset h2, mem)"

fun height_run ::
  "(real \<Rightarrow> real) \<Rightarrow> addr \<Rightarrow> Height \<times> Height \<times> store \<Rightarrow> HeightEvent list \<Rightarrow> Height \<times> Height \<times> store" where
  "height_run rnd r s [] = s"
| "height_run rnd r s (e # events) = height_run rnd r (height_step rnd r s e) events"

text \<open>An event that is a sample for the first of the two measurements.\<close>

fun own_sample :: "HeightEvent \<Rightarrow> bool" where
  "own_sample (Sample First x y1) = True"
| "own_sample e = False"

section \<open>Measurement update envelope\<close>

text \<open>
  The members of \<^verbatim>\<open>Update_<MeasurementModel>\<close>: the vector \<^verbatim>\<open>y_\<close> (first index 1 in the
  source, 0 here), the covariance \<^verbatim>\<open>R_\<close> and the flag \<^verbatim>\<open>has_covariance_\<close>. The dimension of
  the model is the length of the vector.
\<close>

record Update =
  y_vector :: "real list"
  R_cov :: "real list list"
  has_covariance :: bool

text \<open>
  The default constructor builds \<^verbatim>\<open>y_\<close> with the dimension of the model and
  default-constructs \<^verbatim>\<open>R_\<close>; their contents are the arguments \<open>y0\<close> and \<open>R0\<close>.
\<close>

definition Update_new :: "real list \<Rightarrow> real list list \<Rightarrow> Update" where
  "Update_new y0 R0 = \<lparr>y_vector = y0, R_cov = R0, has_covariance = False\<rparr>"

text \<open>\<^verbatim>\<open>setValue(Vector const& y)\<close>: \<^verbatim>\<open>y_ = y\<close>.\<close>

definition setValue_vector :: "Update \<Rightarrow> real list \<Rightarrow> Update" where
  "setValue_vector u y = u\<lparr>y_vector := y\<rparr>"

text \<open>
  \<^verbatim>\<open>setValue(double y)\<close>: \<^verbatim>\<open>y_(1) = y\<close>. Writing the first component of a vector without
  components is out of range in the source; the model returns \<open>None\<close> there.
\<close>

definition setValue_scalar :: "Update \<Rightarrow> real \<Rightarrow> Update option" where
  "setValue_scalar u y =
     (if y_vector u = [] then None else Some (u\<lparr>y_vector := (y_vector u)[0 := y]\<rparr>))"

text \<open>The constructors \<^verbatim>\<open>Update_(Vector const& y)\<close> and \<^verbatim>\<open>Update_(double y)\<close>.\<close>

definition Update_from_vector :: "real list \<Rightarrow> real list list \<Rightarrow> real list \<Rightarrow> Update" where
  "Update_from_vector y0 R0 y = setValue_vector (Update_new y0 R0) y"

definition Update_from_scalar :: "real list \<Rightarrow> real list list \<Rightarrow> real \<Rightarrow> Update option" where
  "Update_from_scalar y0 R0 y = setValue_scalar (Update_new y0 R0) y"

definition setCovariance :: "Update \<Rightarrow> real list list \<Rightarrow> Update" where
  "setCovariance u R = u\<lparr>R_cov := R, has_covariance := True\<rparr>"

definition Update_getVector :: "Update \<Rightarrow> real list" where
  "Update_getVector u = y_vector u"

definition getCovariance :: "Update \<Rightarrow> real list list" where
  "getCovariance u = R_cov u"

definition hasCovariance :: "Update \<Rightarrow> bool" where
  "hasCovariance u = has_covariance u"

text \<open>A sequence of calls of the mutators on one object; it stops at a call out of range.\<close>

datatype UpdateCall =
    SetValueVector "real list"
  | SetValueScalar real
  | SetCovariance "real list list"

fun call :: "Update \<Rightarrow> UpdateCall \<Rightarrow> Update option" where
  "call u (SetValueVector y) = Some (setValue_vector u y)"
| "call u (SetValueScalar y) = setValue_scalar u y"
| "call u (SetCovariance R) = Some (setCovariance u R)"

fun calls :: "Update \<Rightarrow> UpdateCall list \<Rightarrow> Update option" where
  "calls u [] = Some u"
| "calls u (c # cs) = (case call u c of None \<Rightarrow> None | Some u' \<Rightarrow> calls u' cs)"

definition is_SetCovariance :: "UpdateCall \<Rightarrow> bool" where
  "is_SetCovariance c = (case c of SetCovariance R \<Rightarrow> True | _ \<Rightarrow> False)"

section \<open>Properties of the status flags\<close>

lemma active_OR: "active (s OR g) f \<longleftrightarrow> active s f \<or> active g f"
  by (simp add: active_def bit.conj_disj_distrib2 or_eq_0_iff)

lemma active_consts:
  "active STATE_VELOCITY_XY STATE_VELOCITY_XY"
  "active STATE_VELOCITY_Z STATE_VELOCITY_Z"
  "active STATE_ROLLPITCH STATE_ROLLPITCH"
  "active STATE_RATE_XY STATE_RATE_XY"
  "\<not> active STATE_VELOCITY_XY STATE_POSITION_XY"
  "\<not> active STATE_VELOCITY_Z STATE_POSITION_XY"
  "\<not> active STATE_ROLLPITCH STATE_POSITION_XY"
  "\<not> active STATE_RATE_XY STATE_POSITION_XY"
  "\<not> active STATE_RATE_Z STATE_POSITION_XY"
  "\<not> active STATE_VELOCITY_XY STATE_POSITION_Z"
  "\<not> active STATE_VELOCITY_Z STATE_POSITION_Z"
  "\<not> active STATE_ROLLPITCH STATE_POSITION_Z"
  "\<not> active STATE_RATE_XY STATE_POSITION_Z"
  "\<not> active STATE_RATE_Z STATE_POSITION_Z"
  "\<not> active STATE_VELOCITY_Z STATE_VELOCITY_XY"
  "\<not> active STATE_ROLLPITCH STATE_VELOCITY_XY"
  "\<not> active STATE_RATE_XY STATE_VELOCITY_XY"
  "\<not> active STATE_RATE_Z STATE_VELOCITY_XY"
  "\<not> active STATE_RATE_XY STATE_ROLLPITCH"
  "\<not> active STATE_RATE_Z STATE_ROLLPITCH"
  by (simp_all add: active_def STATE_defs)

text \<open>
  Claim C6. For every state, whatever its measurement-status bitmask (and for either setting of
  the preprocessor switch), the status computed by \<^verbatim>\<open>getStatusFlags\<close> satisfies the chain:
  XY position active implies XY velocity active, Z position active implies Z velocity active,
  XY velocity active implies roll/pitch active, and roll/pitch active implies XY rate active.
\<close>

theorem getStatusFlags_chain:
  fixes state :: State and u :: bool
  defines "s \<equiv> getStatusFlags u state"
  shows "(active s STATE_POSITION_XY \<longrightarrow> active s STATE_VELOCITY_XY)
       \<and> (active s STATE_POSITION_Z \<longrightarrow> active s STATE_VELOCITY_Z)
       \<and> (active s STATE_VELOCITY_XY \<longrightarrow> active s STATE_ROLLPITCH)
       \<and> (active s STATE_ROLLPITCH \<longrightarrow> active s STATE_RATE_XY)"
  unfolding s_def getStatusFlags_def Let_def
  by (simp add: active_OR active_consts)

theorem getStatusFlags_chain_witness:
  "active (getStatusFlags True position_state) STATE_POSITION_XY
 \<and> active (getStatusFlags True position_state) STATE_POSITION_Z
 \<and> active (getStatusFlags True position_state) STATE_VELOCITY_XY
 \<and> active (getStatusFlags True position_state) STATE_VELOCITY_Z
 \<and> active (getStatusFlags True position_state) STATE_ROLLPITCH
 \<and> active (getStatusFlags True position_state) STATE_RATE_XY"
proof -
  have a: "active (getStatusFlags True position_state) STATE_POSITION_XY"
          "active (getStatusFlags True position_state) STATE_POSITION_Z"
    by (simp_all add: getStatusFlags_def getMeasurementStatus_def position_state_def
          idle_state_def active_def STATE_defs)
  from a getStatusFlags_chain [of True position_state] show ?thesis
    by blast
qed

section \<open>Properties of the process model\<close>

subsection \<open>The derivative\<close>

lemma getDerivative_quaternion:
  "getDerivative m x_dot state QUATERNION_W =
     (if getOrientationIndex state \<ge> 0 then q_w (spec_quaternion_dot m state) else x_dot QUATERNION_W)"
  "getDerivative m x_dot state QUATERNION_X =
     (if getOrientationIndex state \<ge> 0 then q_x (spec_quaternion_dot m state) else x_dot QUATERNION_X)"
  "getDerivative m x_dot state QUATERNION_Y =
     (if getOrientationIndex state \<ge> 0 then q_y (spec_quaternion_dot m state) else x_dot QUATERNION_Y)"
  "getDerivative m x_dot state QUATERNION_Z =
     (if getOrientationIndex state \<ge> 0 then q_z (spec_quaternion_dot m state) else x_dot QUATERNION_Z)"
  by (simp_all add: getDerivative_def Let_def spec_quaternion_dot_def quat_scale_def
        quat_mult_def pure_quat_def algebra_simps)

lemma rotate_to_nav_components:
  "vec_x (rotate_to_nav q a) =
      (q_w q * q_w q + q_x q * q_x q - q_y q * q_y q - q_z q * q_z q) * vec_x a
    + (2 * q_x q * q_y q - 2 * q_w q * q_z q) * vec_y a
    + (2 * q_x q * q_z q + 2 * q_w q * q_y q) * vec_z a"
  "vec_y (rotate_to_nav q a) =
      (2 * q_x q * q_y q + 2 * q_w q * q_z q) * vec_x a
    + (q_w q * q_w q - q_x q * q_x q + q_y q * q_y q - q_z q * q_z q) * vec_y a
    + (2 * q_y q * q_z q - 2 * q_w q * q_x q) * vec_z a"
  "vec_z (rotate_to_nav q a) =
      (2 * q_x q * q_z q - 2 * q_w q * q_y q) * vec_x a
    + (2 * q_y q * q_z q + 2 * q_w q * q_x q) * vec_y a
    + (q_w q * q_w q - q_x q * q_x q - q_y q * q_y q + q_z q * q_z q) * vec_z a"
  by (simp_all add: rotate_to_nav_def Let_def quat_mult_def pure_quat_def quat_conj_def
        algebra_simps)

lemma getDerivative_velocity_xy:
  "getDerivative m x_dot state VELOCITY_X =
     (if active (getSystemStatus state) STATE_VELOCITY_XY \<and> getVelocityIndex state \<ge> 0
      then vec_x (rotate_to_nav (getOrientation state) (acceleration m)) else x_dot VELOCITY_X)"
  "getDerivative m x_dot state VELOCITY_Y =
     (if active (getSystemStatus state) STATE_VELOCITY_XY \<and> getVelocityIndex state \<ge> 0
      then vec_y (rotate_to_nav (getOrientation state) (acceleration m)) else x_dot VELOCITY_Y)"
  by (auto simp add: getDerivative_def Let_def rotate_to_nav_components)

lemma getDerivative_velocity_z:
  "getDerivative m x_dot state VELOCITY_Z =
     (if active (getSystemStatus state) STATE_VELOCITY_Z \<and> getVelocityIndex state \<ge> 0
      then vec_z (rotate_to_nav (getOrientation state) (acceleration m)) + gravity m
      else x_dot VELOCITY_Z)"
  by (auto simp add: getDerivative_def Let_def rotate_to_nav_components)

lemma getDerivative_position:
  "getDerivative m x_dot state POSITION_X =
     (if active (getSystemStatus state) STATE_POSITION_XY
      then vec_x (getVelocity state) else x_dot POSITION_X)"
  "getDerivative m x_dot state POSITION_Y =
     (if active (getSystemStatus state) STATE_POSITION_XY
      then vec_y (getVelocity state) else x_dot POSITION_Y)"
  "getDerivative m x_dot state POSITION_Z =
     (if active (getSystemStatus state) STATE_POSITION_Z
      then vec_z (getVelocity state) else x_dot POSITION_Z)"
  by (simp_all add: getDerivative_def Let_def)

lemma getDerivative_rate:
  "getDerivative m x_dot state RATE_X = x_dot RATE_X"
  "getDerivative m x_dot state RATE_Y = x_dot RATE_Y"
  "getDerivative m x_dot state RATE_Z = x_dot RATE_Z"
  by (simp_all add: getDerivative_def Let_def)

text \<open>
  Claim C4, as the code has it. Every part of the derivative is guarded by a test. With \<open>d\<close> the vector
  that \<open>getDerivative\<close> returns: the quaternion entries are \<open>\<^sup>1\<^sub>/\<^sub>2 q \<otimes> [0, \<omega>]\<close> when the
  orientation is part of the state; the X and Y velocity entries are the body acceleration
  rotated into the navigation frame when XY velocity is active (and velocity is part of the
  state); the Z velocity entry is the rotated acceleration plus gravity when Z velocity is
  active; the position entries are the velocity when the matching position flag is active.
  An entry whose test fails is not assigned and keeps the value of the incoming vector.
\<close>

theorem getDerivative_gated:
  fixes m :: GenericQuaternionSystemModel and x_dot :: StateVector and state :: State
  defines "d \<equiv> getDerivative m x_dot state"
      and "s \<equiv> getSystemStatus state"
  shows
    "d QUATERNION_W = (if getOrientationIndex state \<ge> 0
                        then q_w (spec_quaternion_dot m state) else x_dot QUATERNION_W)
   \<and> d QUATERNION_X = (if getOrientationIndex state \<ge> 0
                        then q_x (spec_quaternion_dot m state) else x_dot QUATERNION_X)
   \<and> d QUATERNION_Y = (if getOrientationIndex state \<ge> 0
                        then q_y (spec_quaternion_dot m state) else x_dot QUATERNION_Y)
   \<and> d QUATERNION_Z = (if getOrientationIndex state \<ge> 0
                        then q_z (spec_quaternion_dot m state) else x_dot QUATERNION_Z)
   \<and> d VELOCITY_X = (if active s STATE_VELOCITY_XY \<and> getVelocityIndex state \<ge> 0
                      then vec_x (spec_velocity_dot m state) else x_dot VELOCITY_X)
   \<and> d VELOCITY_Y = (if active s STATE_VELOCITY_XY \<and> getVelocityIndex state \<ge> 0
                      then vec_y (spec_velocity_dot m state) else x_dot VELOCITY_Y)
   \<and> d VELOCITY_Z = (if active s STATE_VELOCITY_Z \<and> getVelocityIndex state \<ge> 0
                      then vec_z (rotate_to_nav (getOrientation state) (acceleration m)) + gravity m
                      else x_dot VELOCITY_Z)
   \<and> d POSITION_X = (if active s STATE_POSITION_XY then vec_x (getVelocity state) else x_dot POSITION_X)
   \<and> d POSITION_Y = (if active s STATE_POSITION_XY then vec_y (getVelocity state) else x_dot POSITION_Y)
   \<and> d POSITION_Z = (if active s STATE_POSITION_Z then vec_z (getVelocity state) else x_dot POSITION_Z)"
proof -
  have sv: "vec_x (spec_velocity_dot m state) = vec_x (rotate_to_nav (getOrientation state) (acceleration m))"
           "vec_y (spec_velocity_dot m state) = vec_y (rotate_to_nav (getOrientation state) (acceleration m))"
    by (simp_all add: spec_velocity_dot_def Let_def)
  show ?thesis
    unfolding d_def s_def sv
    by (intro conjI getDerivative_quaternion getDerivative_velocity_xy getDerivative_velocity_z
          getDerivative_position)
qed

lemma example_active:
  "active all_status STATE_VELOCITY_XY" "active all_status STATE_VELOCITY_Z"
  "active all_status STATE_POSITION_XY" "active all_status STATE_POSITION_Z"
  "\<not> active 0 f"
  by (simp_all add: active_def all_status_def STATE_defs)

theorem getDerivative_gated_witness:
  "getDerivative example_model zero_vector full_state QUATERNION_Z = 1 / 2
 \<and> getDerivative example_model zero_vector full_state VELOCITY_X = 1
 \<and> getDerivative example_model zero_vector full_state VELOCITY_Z = 10
 \<and> getDerivative example_model zero_vector full_state POSITION_Y = 2
 \<and> getDerivative example_model zero_vector idle_state VELOCITY_X = 0
 \<and> getDerivative example_model zero_vector idle_state VELOCITY_Z = 0
 \<and> getDerivative example_model zero_vector idle_state POSITION_Y = 0"
  using getDerivative_gated [of example_model zero_vector full_state]
        getDerivative_gated [of example_model zero_vector idle_state]
  by (simp add: example_active full_state_def idle_state_def example_model_def example_vector_def
        zero_vector_def getSystemStatus_def getOrientationIndex_def getVelocityIndex_def
        getOrientation_def getVelocity_def spec_quaternion_dot_def spec_velocity_dot_def
        rotate_to_nav_components quat_scale_def quat_mult_def pure_quat_def)

text \<open>
  The claim as written lets the velocity derivative be the rotated acceleration in every state
  and gates only the gravity term. In \<open>idle_state\<close> no velocity flag is active and the body
  acceleration is (1, 0, 0): the specification's velocity derivative has x component 1, while
  \<open>getDerivative\<close> leaves the x entry at the incoming 0.
\<close>

theorem getDerivative_ungated_counterexample:
  "getDerivative example_model zero_vector idle_state VELOCITY_X
     \<noteq> vec_x (spec_velocity_dot example_model idle_state)"
  by (simp add: getDerivative_velocity_xy example_active idle_state_def example_model_def
        example_vector_def zero_vector_def getSystemStatus_def getOrientation_def
        spec_velocity_dot_def rotate_to_nav_components)

subsection \<open>The system noise\<close>

lemma set_diag3_diag:
  "set_diag3 Q i j k v i i = v" "set_diag3 Q i j k v j j = v" "set_diag3 Q i j k v k k = v"
  by (simp_all add: set_diag3_def)

lemma set_diag3_other:
  "a \<noteq> b \<or> (a \<noteq> i \<and> a \<noteq> j \<and> a \<noteq> k) \<Longrightarrow> set_diag3 Q i j k v a b = Q a b"
  by (auto simp add: set_diag3_def)

text \<open>
  With every sub-block part of the state, initialisation seeds the three blocks as the claim
  says, and the orientation terms are refreshed whenever the rate deviation is positive.
\<close>

lemma getSystemNoise_init_full:
  fixes m :: GenericQuaternionSystemModel and Q :: NoiseVariance and state :: State
  assumes "getRateIndex state \<ge> 0" and "getPositionIndex state \<ge> 0"
  defines "Q' \<equiv> getSystemNoise m Q state True"
  shows "Q' RATE_X RATE_X = (angular_acceleration_stddev m)\<^sup>2"
    and "Q' RATE_Y RATE_Y = (angular_acceleration_stddev m)\<^sup>2"
    and "Q' RATE_Z RATE_Z = (angular_acceleration_stddev m)\<^sup>2"
    and "Q' POSITION_X POSITION_X = (velocity_stddev m)\<^sup>2"
    and "Q' POSITION_Y POSITION_Y = (velocity_stddev m)\<^sup>2"
    and "Q' POSITION_Z POSITION_Z = (velocity_stddev m)\<^sup>2"
    and "Q' VELOCITY_X VELOCITY_X = (acceleration_stddev m)\<^sup>2"
    and "Q' VELOCITY_Y VELOCITY_Y = (acceleration_stddev m)\<^sup>2"
    and "Q' VELOCITY_Z VELOCITY_Z = (acceleration_stddev m)\<^sup>2"
  using assms(1,2) unfolding Q'_def
  by (simp_all add: getSystemNoise_def Let_def set_diag3_diag set_diag3_other)

lemma getSystemNoise_refresh:
  fixes m :: GenericQuaternionSystemModel and Q :: NoiseVariance and state :: State
    and init :: bool
  assumes "rate_stddev m > 0" and "getOrientationIndex state \<ge> 0"
  defines "Q' \<equiv> getSystemNoise m Q state init"
      and "q \<equiv> getOrientation state"
  shows "Q' QUATERNION_W QUATERNION_W = 0.25 * (rate_stddev m)\<^sup>2 * ((q_x q)\<^sup>2 + (q_y q)\<^sup>2 + (q_z q)\<^sup>2)"
    and "Q' QUATERNION_X QUATERNION_X = 0.25 * (rate_stddev m)\<^sup>2 * ((q_w q)\<^sup>2 + (q_y q)\<^sup>2 + (q_z q)\<^sup>2)"
    and "Q' QUATERNION_Y QUATERNION_Y = 0.25 * (rate_stddev m)\<^sup>2 * ((q_w q)\<^sup>2 + (q_x q)\<^sup>2 + (q_z q)\<^sup>2)"
    and "Q' QUATERNION_Z QUATERNION_Z = 0.25 * (rate_stddev m)\<^sup>2 * ((q_w q)\<^sup>2 + (q_x q)\<^sup>2 + (q_y q)\<^sup>2)"
  using assms(1,2) unfolding Q'_def q_def
  by (simp_all add: getSystemNoise_def Let_def power2_eq_square)

lemma getSystemNoise_not_init_frame:
  assumes "a \<noteq> b \<or> a \<in> {RATE_X, RATE_Y, RATE_Z, POSITION_X, POSITION_Y, POSITION_Z,
                             VELOCITY_X, VELOCITY_Y, VELOCITY_Z}"
  shows "getSystemNoise m Q state False a b = Q a b"
  using assms by (auto simp add: getSystemNoise_def Let_def)

text \<open>
  The velocity block is seeded under the test \<^verbatim>\<open>getRateIndex() >= 0\<close>, not under a test of
  the velocity index: a state without a rate sub-block keeps its old velocity noise.
\<close>

lemma getSystemNoise_velocity_needs_rate:
  assumes "getRateIndex state < 0"
  shows "getSystemNoise m Q state True VELOCITY_X VELOCITY_X = Q VELOCITY_X VELOCITY_X"
    and "getSystemNoise m Q state True VELOCITY_Y VELOCITY_Y = Q VELOCITY_Y VELOCITY_Y"
    and "getSystemNoise m Q state True VELOCITY_Z VELOCITY_Z = Q VELOCITY_Z VELOCITY_Z"
  using assms
  by (simp_all add: getSystemNoise_def Let_def set_diag3_diag set_diag3_other)

text \<open>
  Claim C5 at a state without a rate sub-block, the case for which \<^verbatim>\<open>prepareUpdate\<close> reads
  the rate from the inertial input: \<open>idle_state\<close> has position, velocity and orientation.
  Initialising the zero matrix seeds the position block with the squared velocity deviation
  (9), and leaves the velocity block at 0 although the squared acceleration deviation is 1.
\<close>

theorem getSystemNoise_init_velocity_unseeded:
  "getVelocityIndex idle_state \<ge> 0
 \<and> getSystemNoise example_model zero_matrix idle_state True POSITION_X POSITION_X = 9
 \<and> getSystemNoise example_model zero_matrix idle_state True VELOCITY_X VELOCITY_X = 0
 \<and> getSystemNoise example_model zero_matrix idle_state True VELOCITY_Y VELOCITY_Y = 0
 \<and> getSystemNoise example_model zero_matrix idle_state True VELOCITY_Z VELOCITY_Z = 0
 \<and> (acceleration_stddev example_model)\<^sup>2 = 1"
  by (simp add: getSystemNoise_def Let_def set_diag3_diag set_diag3_other idle_state_def
        example_model_def zero_matrix_def getRateIndex_def getPositionIndex_def
        getVelocityIndex_def getOrientationIndex_def)

section \<open>Properties of the GPS measurement\<close>

lemma list4_update:
  "length xs = 4 \<Longrightarrow> xs[3 := a, 2 := b, Suc 0 := c, 0 := d] = [d, c, b, a]"
  by (auto simp add: numeral_eq_Suc length_Suc_conv)


text \<open>
  Claim C7. While the GPS holds no reference (\<^verbatim>\<open>reference_\<close> is null), \<open>getVector\<close> returns
  the vector whose four components (local x, local y, velocity x, velocity y) are all NaN,
  whatever the update carries. What the caller does with that vector is outside
  \<^verbatim>\<open>gps.cpp\<close>.
\<close>

theorem getVector_no_reference:
  assumes "reference gps = None" and "length (y_gps gps) = 4"
  shows "fst (getVector gps mem update) = [NaN, NaN, NaN, NaN]"
  using assms by (simp add: getVector_def Let_def ddiv_def list4_update)

theorem getVector_no_reference_witness:
  "reference fresh_gps = None \<and> length (y_gps fresh_gps) = 4
 \<and> fst (getVector fresh_gps example_store example_fix) = [NaN, NaN, NaN, NaN]"
proof -
  have h: "reference fresh_gps = None" "length (y_gps fresh_gps) = 4"
    by (simp_all add: fresh_gps_def GPS_new_def)
  from h getVector_no_reference [OF h, of example_store example_fix] show ?thesis
    by simp
qed

lemma beforeUpdate_reanchor_eq:
  assumes "timedout \<or> reference gps \<noteq> Some (globalReference estimator)"
  shows "beforeUpdate timedout gps estimator mem update =
    (let r = globalReference estimator;
         fix = setPosition (mem r) (update_latitude update) (update_longitude update);
         new = toWGS84 fix (- getState estimator POSITION_X) (- getState estimator POSITION_Y)
     in (True, gps\<lparr>reference := Some r\<rparr>, mem(r := setPosition fix (fst new) (snd new))))"
  using assms by (auto simp add: beforeUpdate_def Let_def split: prod.splits)

lemma beforeUpdate_keep_eq:
  assumes "\<not> timedout" and "reference gps = Some (globalReference estimator)"
  shows "beforeUpdate timedout gps estimator mem update = (True, gps, mem)"
  using assms by (simp add: beforeUpdate_def Let_def)





text \<open>
  Claim C10. When the GPS has not timed out and its stored pointer is the estimator's global
  reference, \<open>beforeUpdate\<close> returns true and leaves the GPS object and the whole store as they
  were. The store is changed only when the GPS has timed out or its pointer is not the
  estimator's reference (null before the first fix and after a reset), and then only at the
  address of the estimator's reference.
\<close>

theorem beforeUpdate_frame:
  fixes timedout :: bool and gps :: GPS and estimator :: PoseEstimation and mem :: store
    and update :: GPSUpdate
  defines "res \<equiv> beforeUpdate timedout gps estimator mem update"
  shows "(\<not> timedout \<and> reference gps = Some (globalReference estimator) \<longrightarrow> res = (True, gps, mem))
       \<and> (snd (snd res) \<noteq> mem \<longrightarrow> timedout \<or> reference gps \<noteq> Some (globalReference estimator))
       \<and> (\<forall>a. a \<noteq> globalReference estimator \<longrightarrow> snd (snd res) a = mem a)"
proof (cases "\<not> timedout \<and> reference gps = Some (globalReference estimator)")
  case True
  then have "res = (True, gps, mem)"
    unfolding res_def by (simp add: beforeUpdate_keep_eq)
  with True show ?thesis by simp
next
  case False
  then have re: "timedout \<or> reference gps \<noteq> Some (globalReference estimator)"
    by blast
  have "\<forall>a. a \<noteq> globalReference estimator \<longrightarrow> snd (snd res) a = mem a"
    unfolding res_def beforeUpdate_reanchor_eq [OF re] by (simp add: Let_def)
  with False re show ?thesis
    by blast
qed

lemma example_reanchor:
  "snd (snd (beforeUpdate True locked_gps example_estimator example_store example_fix)) 1 =
     \<lparr>position = \<lparr>latitude = 0.01, longitude = 0.03, altitude = 0\<rparr>, heading = 0\<rparr>"
proof -
  have re: "True \<or> reference locked_gps \<noteq> Some (globalReference example_estimator)"
    by simp
  show ?thesis
    unfolding beforeUpdate_reanchor_eq [OF re]
    by (simp add: Let_def globalReference_def getState_def
          example_estimator_def example_store_def example_reference_def example_fix_def
          setPosition_def toWGS84_def toNorthEast_def radius_north_def radius_east_def
          equatorial_radius_def zero_vector_def)
qed

theorem beforeUpdate_frame_witness:
  "beforeUpdate False locked_gps example_estimator example_store example_fix
     = (True, locked_gps, example_store)
 \<and> snd (snd (beforeUpdate True locked_gps example_estimator example_store example_fix))
     \<noteq> example_store
 \<and> snd (snd (beforeUpdate True locked_gps example_estimator example_store example_fix)) 2
     = example_store 2"
proof -
  have a: "\<not> False \<and> reference locked_gps = Some (globalReference example_estimator)"
    by (simp add: locked_gps_def globalReference_def example_estimator_def)
  have "snd (snd (beforeUpdate True locked_gps example_estimator example_store example_fix)) 1
          \<noteq> example_store 1"
    unfolding example_reanchor by (simp add: example_store_def example_reference_def)
  then have b: "snd (snd (beforeUpdate True locked_gps example_estimator example_store example_fix))
                  \<noteq> example_store"
    by metis
  have c: "(2::nat) \<noteq> globalReference example_estimator"
    by (simp add: globalReference_def example_estimator_def)
  from a b c
    beforeUpdate_frame [of False locked_gps example_estimator example_store example_fix]
    beforeUpdate_frame [of True locked_gps example_estimator example_store example_fix]
  show ?thesis
    by blast
qed

subsection \<open>Re-anchoring\<close>




lemma radius_setPosition:
  "radius_north (setPosition ref lat lon) = radius_north ref"
  "radius_east (setPosition ref lat lon) = equatorial_radius * cos lat"
  by (simp_all add: radius_north_def radius_east_def setPosition_def)






section \<open>Properties of the height measurement\<close>

lemma Height_beforeUpdate_first:
  assumes "\<not> elevation_initialized h"
  shows "Height_beforeUpdate rnd h estimator mem y1 =
     (True,
      h\<lparr>elevation_initialized := True, elevation := rnd (y1 - getState estimator POSITION_Z)\<rparr>,
      mem(globalReference estimator :=
            setAltitude (mem (globalReference estimator))
              (rnd (y1 - getState estimator POSITION_Z))))"
  using assms
  by (simp add: Height_beforeUpdate_def resetElevation_def Let_def setElevation_def
        setAltitude_def)

lemma Height_beforeUpdate_later:
  assumes "elevation_initialized h"
  shows "Height_beforeUpdate rnd h estimator mem y1 =
     (True, h\<lparr>elevation := altitude (position (mem (globalReference estimator)))\<rparr>, mem)"
  using assms
  by (simp add: Height_beforeUpdate_def resetElevation_def Let_def setElevation_def)

text \<open>After every sample the elevation is the altitude that the shared reference then has.\<close>

lemma Height_beforeUpdate_reads_reference:
  assumes "Height_beforeUpdate rnd h estimator mem y1 = (ok, h', mem')"
  shows "elevation h' = altitude (position (mem' (globalReference estimator)))"
proof (cases "elevation_initialized h")
  case True
  from assms show ?thesis
    unfolding Height_beforeUpdate_later [OF True] by auto
next
  case False
  from assms show ?thesis
    unfolding Height_beforeUpdate_first [OF False] by (auto simp add: setAltitude_def)
qed

lemma height_run_snoc:
  "height_run rnd r s (events @ [e]) = height_step rnd r (height_run rnd r s events) e"
  by (induction events arbitrary: s) simp_all

lemma height_step_own_sample:
  "elevation (fst (height_step rnd r s (Sample First x y1)))
     = altitude (position (snd (snd (height_step rnd r s (Sample First x y1))) r))"
proof -
  obtain h h2 mem where s: "s = (h, h2, mem)"
    by (cases s)
  obtain ok h' mem' where b:
    "Height_beforeUpdate rnd h \<lparr>state_vec = x, global_reference = r\<rparr> mem y1 = (ok, h', mem')"
    by (cases "Height_beforeUpdate rnd h \<lparr>state_vec = x, global_reference = r\<rparr> mem y1")
  from Height_beforeUpdate_reads_reference [OF b] show ?thesis
    by (simp add: s b globalReference_def)
qed

text \<open>
  Once the elevation is initialised and equal to the altitude of the reference, a run in which
  only this measurement receives samples changes neither object nor the store.
\<close>

lemma height_run_own_stable:
  assumes "elevation_initialized h" and "elevation h = altitude (position (mem r))"
    and "\<forall>e \<in> set events. own_sample e"
  shows "height_run rnd r (h, h2, mem) events = (h, h2, mem)"
  using assms(3)
proof (induction events)
  case Nil
  then show ?case by simp
next
  case (Cons e events)
  from Cons.prems have "own_sample e"
    by simp
  then obtain x y1 where e: "e = Sample First x y1"
    by (cases e rule: own_sample.cases) simp_all
  from assms(1,2)
  have "Height_beforeUpdate rnd h \<lparr>state_vec = x, global_reference = r\<rparr> mem y1 = (True, h, mem)"
    by (simp add: Height_beforeUpdate_later globalReference_def)
  with Cons show ?case
    by (simp add: e)
qed

text \<open>
  Claim C3, as the code has it. A \<open>Height\<close> is uninitialised after construction and after
  \<open>onReset\<close>, with auto-elevation enabled by the constructor. On the first sample \<open>y1\<close> in
  that condition, with \<open>z\<close> the predicted height of the state, the altitude of the shared
  reference and the stored elevation become the rounded \<open>y1 - z\<close>, and the predicted
  measurement for that state is the rounded \<open>z + (y1 - z)\<close>: it is \<open>y1\<close> when the subtraction
  is exact and \<open>y1\<close> is a double. A run in which only this measurement receives samples leaves
  the object as the first sample set it. In every run of samples and resets of the two
  measurements, a sample of this measurement leaves its elevation equal to the altitude that
  the shared reference then has.
\<close>

theorem Height_auto_elevation:
  fixes rnd :: "real \<Rightarrow> real" and h :: Height and estimator :: PoseEstimation
    and mem :: store and y1 :: real
  assumes "\<not> elevation_initialized h"
  defines "z \<equiv> getState estimator POSITION_Z"
      and "r \<equiv> globalReference estimator"
      and "h1 \<equiv> fst (snd (Height_beforeUpdate rnd h estimator mem y1))"
      and "mem1 \<equiv> snd (snd (Height_beforeUpdate rnd h estimator mem y1))"
  shows "elevation h1 = rnd (y1 - z)
       \<and> altitude (position (mem1 r)) = rnd (y1 - z)
       \<and> ExpectedValueGet rnd h1 (getState estimator) = rnd (z + rnd (y1 - z))
       \<and> (rnd (y1 - z) = y1 - z \<and> rnd y1 = y1
            \<longrightarrow> ExpectedValueGet rnd h1 (getState estimator) = y1)
       \<and> (\<forall>events h2. (\<forall>e \<in> set events. own_sample e)
            \<longrightarrow> fst (height_run rnd r (h1, h2, mem1) events) = h1)
       \<and> (\<forall>events h2 x y.
            elevation (fst (height_run rnd r (h1, h2, mem1) (events @ [Sample First x y])))
              = altitude (position
                  (snd (snd (height_run rnd r (h1, h2, mem1) (events @ [Sample First x y]))) r)))
       \<and> \<not> elevation_initialized (Height_onReset h1)
       \<and> \<not> elevation_initialized Height_new \<and> auto_elevation Height_new"
proof -
  have h1: "h1 = h\<lparr>elevation_initialized := True, elevation := rnd (y1 - z)\<rparr>"
    and mem1: "mem1 = mem(r := setAltitude (mem r) (rnd (y1 - z)))"
    unfolding h1_def mem1_def z_def r_def
    by (simp_all add: Height_beforeUpdate_first [OF assms(1)])
  have first: "elevation h1 = rnd (y1 - z)"
    by (simp add: h1)
  have ref: "altitude (position (mem1 r)) = rnd (y1 - z)"
    by (simp add: mem1 setAltitude_def)
  have expect: "ExpectedValueGet rnd h1 (getState estimator) = rnd (z + rnd (y1 - z))"
    by (simp add: ExpectedValueGet_def getElevation_def first z_def)
  have exact: "ExpectedValueGet rnd h1 (getState estimator) = y1"
    if "rnd (y1 - z) = y1 - z \<and> rnd y1 = y1"
    using that by (simp add: expect)
  have init: "elevation_initialized h1"
    by (simp add: h1)
  have stable: "fst (height_run rnd r (h1, h2, mem1) events) = h1"
    if "\<forall>e \<in> set events. own_sample e" for events h2
    using height_run_own_stable [of h1 mem1 r events rnd h2] init first ref that
    by simp
  have reads: "elevation (fst (height_run rnd r (h1, h2, mem1) (events @ [Sample First x y])))
              = altitude (position
                  (snd (snd (height_run rnd r (h1, h2, mem1) (events @ [Sample First x y]))) r))"
    for events h2 x y
    unfolding height_run_snoc by (rule height_step_own_sample)
  from first ref expect exact stable reads show ?thesis
    by (simp add: Height_onReset_def Height_new_def)
qed

theorem Height_auto_elevation_witness:
  "\<not> elevation_initialized Height_new
 \<and> elevation (fst (snd (Height_beforeUpdate no_rounding Height_new example_estimator example_store 10)))
     = 10
 \<and> ExpectedValueGet no_rounding
      (fst (snd (Height_beforeUpdate no_rounding Height_new example_estimator example_store 10)))
      (getState example_estimator) = 10
 \<and> elevation (fst (height_run no_rounding 1
      (fst (snd (Height_beforeUpdate no_rounding Height_new example_estimator example_store 10)),
       Height_new,
       snd (snd (Height_beforeUpdate no_rounding Height_new example_estimator example_store 10)))
      [Sample First zero_vector 12, Sample First (zero_vector(POSITION_Z := 1)) 8])) = 10"
proof -
  have h: "\<not> elevation_initialized Height_new"
    by (simp add: Height_new_def)
  have r: "globalReference example_estimator = 1"
    by (simp add: globalReference_def example_estimator_def)
  have z: "getState example_estimator POSITION_Z = 0"
    by (simp add: getState_def example_estimator_def zero_vector_def)
  have exact: "no_rounding (10 - 0) = 10 - 0 \<and> no_rounding 10 = 10"
    by (simp add: no_rounding_def)
  have own: "\<forall>e \<in> set [Sample First zero_vector 12, Sample First (zero_vector(POSITION_Z := 1)) 8].
               own_sample e"
    by simp
  note t = Height_auto_elevation [OF h, of no_rounding example_estimator example_store 10,
             unfolded r z]
  from t have a:
    "elevation (fst (snd (Height_beforeUpdate no_rounding Height_new example_estimator example_store 10)))
       = no_rounding (10 - 0)"
    by blast
  from t exact have b:
    "ExpectedValueGet no_rounding
       (fst (snd (Height_beforeUpdate no_rounding Height_new example_estimator example_store 10)))
       (getState example_estimator) = 10"
    by blast
  from t own have c:
    "fst (height_run no_rounding 1
       (fst (snd (Height_beforeUpdate no_rounding Height_new example_estimator example_store 10)),
        Height_new,
        snd (snd (Height_beforeUpdate no_rounding Height_new example_estimator example_store 10)))
       [Sample First zero_vector 12, Sample First (zero_vector(POSITION_Z := 1)) 8])
     = fst (snd (Height_beforeUpdate no_rounding Height_new example_estimator example_store 10))"
    by blast
  from h a b show ?thesis
    unfolding c by (simp add: no_rounding_def)
qed

text \<open>
  The claim as written has every later sample keep the stored elevation until \<open>onReset\<close>.
  Two height measurements on one estimator, no reset: the first sample of the first stores
  10; the first sample of the second, a raw 20, writes the shared reference altitude; the
  next sample of the first then sets its elevation to 20.
\<close>

theorem Height_shared_reference_counterexample:
  "elevation (fst (height_run no_rounding 1 (Height_new, Height_new, example_store)
      [Sample First zero_vector 10])) = 10
 \<and> elevation (fst (height_run no_rounding 1 (Height_new, Height_new, example_store)
      [Sample First zero_vector 10, Sample Second zero_vector 20, Sample First zero_vector 10]))
     = 20"
  by (simp add: Height_beforeUpdate_def resetElevation_def Let_def setElevation_def
        setAltitude_def Height_new_def no_rounding_def globalReference_def getState_def
        zero_vector_def example_store_def example_reference_def)

section \<open>Properties of the measurement update envelope\<close>

lemma setValue_scalar_frame:
  assumes "y_vector u \<noteq> []"
  shows "\<exists>u'. setValue_scalar u y = Some u'
            \<and> Update_getVector u' ! 0 = y
            \<and> (\<forall>i. 0 < i \<and> i < length (y_vector u) \<longrightarrow> Update_getVector u' ! i = y_vector u ! i)
            \<and> length (Update_getVector u') = length (y_vector u)
            \<and> R_cov u' = R_cov u \<and> has_covariance u' = has_covariance u"
  using assms by (simp add: setValue_scalar_def Update_getVector_def)

lemma call_has_covariance:
  assumes "call u c = Some u'"
  shows "has_covariance u' \<longleftrightarrow> has_covariance u \<or> is_SetCovariance c"
  using assms
  by (cases c)
     (auto simp add: setValue_vector_def setValue_scalar_def setCovariance_def
        is_SetCovariance_def split: if_splits)

lemma calls_has_covariance:
  assumes "calls u cs = Some u'"
  shows "has_covariance u' \<longleftrightarrow> has_covariance u \<or> (\<exists>c \<in> set cs. is_SetCovariance c)"
  using assms
proof (induction cs arbitrary: u)
  case Nil
  then show ?case by simp
next
  case (Cons c cs)
  then obtain v where v: "call u c = Some v" and rest: "calls v cs = Some u'"
    by (auto split: option.splits)
  from Cons.IH [OF rest] call_has_covariance [OF v] show ?case
    by auto
qed

lemma call_keeps_covariance:
  assumes "call u c = Some u'" and "\<not> is_SetCovariance c"
  shows "R_cov u' = R_cov u"
  using assms
  by (cases c)
     (auto simp add: setValue_vector_def setValue_scalar_def is_SetCovariance_def
        split: if_splits)

lemma calls_keep_covariance:
  assumes "calls u cs = Some u'" and "\<forall>c \<in> set cs. \<not> is_SetCovariance c"
  shows "R_cov u' = R_cov u"
  using assms
proof (induction cs arbitrary: u)
  case Nil
  then show ?case by simp
next
  case (Cons c cs)
  then obtain v where v: "call u c = Some v" and rest: "calls v cs = Some u'"
    by (auto split: option.splits)
  from Cons.prems(2) have "R_cov v = R_cov u"
    by (simp add: call_keeps_covariance [OF v])
  moreover from Cons.IH [OF rest] Cons.prems(2) have "R_cov u' = R_cov v"
    by simp
  ultimately show ?case by simp
qed

lemma calls_append:
  "calls u (cs @ ds) = (case calls u cs of None \<Rightarrow> None | Some v \<Rightarrow> calls v ds)"
  by (induction cs arbitrary: u) (auto split: option.splits)

text \<open>
  Claim C9. For a measurement of dimension greater than 1, \<open>setValue\<close> with a scalar, and so
  the constructor from a scalar, succeeds, writes the first component and leaves every other
  component (and the dimension) as it was. A freshly constructed update has no covariance,
  and after any sequence of calls \<open>hasCovariance\<close> is true exactly when \<open>setCovariance\<close> was
  among them; \<open>getCovariance\<close> then returns the covariance of the last such call.
\<close>

theorem Update_scalar_and_covariance:
  fixes u :: Update and yinit :: "real list" and Rinit :: "real list list" and y :: real
  assumes "1 < length (y_vector u)" and "1 < length yinit"
  shows
    "(\<exists>u'. setValue_scalar u y = Some u'
         \<and> Update_getVector u' ! 0 = y
         \<and> (\<forall>i. 0 < i \<and> i < length (y_vector u) \<longrightarrow> Update_getVector u' ! i = y_vector u ! i)
         \<and> length (Update_getVector u') = length (y_vector u))
   \<and> (\<exists>u'. Update_from_scalar yinit Rinit y = Some u'
         \<and> Update_getVector u' ! 0 = y
         \<and> (\<forall>i. 0 < i \<and> i < length yinit \<longrightarrow> Update_getVector u' ! i = yinit ! i)
         \<and> length (Update_getVector u') = length yinit
         \<and> \<not> hasCovariance u')
   \<and> (\<forall>cs u'. calls (Update_new yinit Rinit) cs = Some u'
         \<longrightarrow> (hasCovariance u' \<longleftrightarrow> (\<exists>c \<in> set cs. is_SetCovariance c)))
   \<and> (\<forall>cs cs' R u'. calls u (cs @ SetCovariance R # cs') = Some u'
                      \<and> (\<forall>c \<in> set cs'. \<not> is_SetCovariance c)
         \<longrightarrow> hasCovariance u' \<and> getCovariance u' = R)"
proof (intro conjI allI impI)
  from assms(1) have "y_vector u \<noteq> []"
    by auto
  from setValue_scalar_frame [OF this, of y]
  show "\<exists>u'. setValue_scalar u y = Some u'
         \<and> Update_getVector u' ! 0 = y
         \<and> (\<forall>i. 0 < i \<and> i < length (y_vector u) \<longrightarrow> Update_getVector u' ! i = y_vector u ! i)
         \<and> length (Update_getVector u') = length (y_vector u)"
    by blast
next
  from assms(2) have "y_vector (Update_new yinit Rinit) \<noteq> []"
    by (auto simp add: Update_new_def)
  from setValue_scalar_frame [OF this, of y]
  show "\<exists>u'. Update_from_scalar yinit Rinit y = Some u'
         \<and> Update_getVector u' ! 0 = y
         \<and> (\<forall>i. 0 < i \<and> i < length yinit \<longrightarrow> Update_getVector u' ! i = yinit ! i)
         \<and> length (Update_getVector u') = length yinit
         \<and> \<not> hasCovariance u'"
    by (auto simp add: Update_from_scalar_def Update_new_def hasCovariance_def)
next
  fix cs u'
  assume "calls (Update_new yinit Rinit) cs = Some u'"
  from calls_has_covariance [OF this]
  show "hasCovariance u' \<longleftrightarrow> (\<exists>c \<in> set cs. is_SetCovariance c)"
    by (simp add: hasCovariance_def Update_new_def)
next
  fix cs cs' R u'
  assume a: "calls u (cs @ SetCovariance R # cs') = Some u' \<and> (\<forall>c \<in> set cs'. \<not> is_SetCovariance c)"
  then obtain v where v: "calls u cs = Some v"
    and rest: "calls (setCovariance v R) cs' = Some u'"
    by (auto simp add: calls_append split: option.splits)
  from a have quiet: "\<forall>c \<in> set cs'. \<not> is_SetCovariance c"
    by blast
  from calls_has_covariance [OF rest] show "hasCovariance u'"
    by (simp add: hasCovariance_def setCovariance_def)
  from calls_keep_covariance [OF rest quiet] show "getCovariance u' = R"
    by (simp add: getCovariance_def setCovariance_def)
qed

theorem Update_scalar_and_covariance_witness:
  "1 < length (y_vector (Update_new [1, 2, 3] []))
 \<and> (\<exists>u'. Update_from_scalar [1, 2, 3] [] 7 = Some u'
        \<and> Update_getVector u' ! 0 = 7 \<and> Update_getVector u' ! 1 = 2 \<and> Update_getVector u' ! 2 = 3
        \<and> \<not> hasCovariance u')
 \<and> (\<exists>u'. calls (Update_new [1, 2, 3] []) [SetValueScalar 7, SetCovariance [ [4] ], SetValueScalar 8]
             = Some u'
        \<and> hasCovariance u' \<and> getCovariance u' = [ [4] ])"
proof -
  have h: "1 < length (y_vector (Update_new [1, 2, 3] []))" "1 < length [1, 2, 3 :: real]"
    by (simp_all add: Update_new_def)
  note t = Update_scalar_and_covariance [OF h, where y = 7 and Rinit = "[]"]
  from t obtain u' where u':
    "Update_from_scalar [1, 2, 3] [] 7 = Some u'" "Update_getVector u' ! 0 = 7"
    "\<forall>i. 0 < i \<and> i < length [1, 2, 3 :: real] \<longrightarrow> Update_getVector u' ! i = [1, 2, 3] ! i"
    "\<not> hasCovariance u'"
    by blast
  from u'(3) have "Update_getVector u' ! 1 = 2" "Update_getVector u' ! 2 = 3"
    by simp_all
  with u' have a: "\<exists>u'. Update_from_scalar [1, 2, 3] [] 7 = Some u'
        \<and> Update_getVector u' ! 0 = 7 \<and> Update_getVector u' ! 1 = 2 \<and> Update_getVector u' ! 2 = 3
        \<and> \<not> hasCovariance u'"
    by blast
  have quiet: "\<forall>c \<in> set [SetValueScalar 8]. \<not> is_SetCovariance c"
    by (simp add: is_SetCovariance_def)
  from t have "\<forall>cs cs' R u'. calls (Update_new [1, 2, 3] []) (cs @ SetCovariance R # cs') = Some u'
                      \<and> (\<forall>c \<in> set cs'. \<not> is_SetCovariance c)
         \<longrightarrow> hasCovariance u' \<and> getCovariance u' = R"
    by blast
  from this [rule_format, of "[SetValueScalar 7]" "[ [4] ]" "[SetValueScalar 8]"] quiet
  have b: "\<forall>u'. calls (Update_new [1, 2, 3] []) [SetValueScalar 7, SetCovariance [ [4] ], SetValueScalar 8]
             = Some u'
        \<longrightarrow> hasCovariance u' \<and> getCovariance u' = [ [4] ]"
    by simp
  have "\<exists>u'. calls (Update_new [1, 2, 3] []) [SetValueScalar 7, SetCovariance [ [4] ], SetValueScalar 8]
             = Some u'"
    by (simp add: Update_new_def setValue_scalar_def setCovariance_def)
  with b have c: "\<exists>u'. calls (Update_new [1, 2, 3] []) [SetValueScalar 7, SetCovariance [ [4] ], SetValueScalar 8]
             = Some u'
        \<and> hasCovariance u' \<and> getCovariance u' = [ [4] ]"
    by blast
  from h(1) a c show ?thesis
    by blast
qed

end
